theory Spec2Isabelle
  imports Complex_Main
begin

section \<open>Data model of \<open>exam1.py\<close>\<close>

text \<open>
  Numbers. The tracker stores Python numbers (\<open>int\<close> literals in the sample data,
  \<open>float\<close> values read from the menu). They are modelled as exact rationals: every
  Python int and every finite float is one, and \<open>*\<close>, \<open>+\<close>, \<open>/\<close> are the exact
  operations (rounding of float arithmetic is not modelled).
\<close>

type_synonym number = rat

text \<open>
  Calendar days are counted in days from 1970-01-01 (day 0, a Thursday), the origin of
  pandas timestamps. \<open>datetime.date.today()\<close> is an input of every logging operation.
\<close>

type_synonym date = int

text \<open>
  A cell of a \<open>Date\<close> column. \<open>log_activity\<close> and \<open>log_health_metric\<close> store the text
  \<open>date.strftime("%Y-%m-%d")\<close>; \<open>pd.to_datetime\<close> replaces it by a pandas Timestamp
  (midnight of the same day). \<open>DateStr d\<close> stands for the text that \<open>strftime\<close> gives
  for day \<open>d\<close>: no other text is ever written to a \<open>Date\<close> column.
\<close>

datatype date_cell = DateStr date | Timestamp date

fun day_of :: "date_cell \<Rightarrow> date" where
  "day_of (DateStr d) = d"
| "day_of (Timestamp d) = d"

text \<open>One row of the \<open>activities\<close> DataFrame (columns as in \<open>__init__\<close>).\<close>

record activity =
  Date :: date_cell
  ActivityType :: string
  DurationMin :: number
  CaloriesBurned :: number
  DistanceKM :: number

text \<open>One row of a health-metric DataFrame (columns \<open>Date\<close>, \<open>Value\<close>).\<close>

record reading =
  MetricDate :: date_cell
  Value :: number

text \<open>
  The object state. A DataFrame built with \<open>ignore_index=True\<close> is its list of rows in
  index order; \<open>health_metrics\<close> is a dict from metric name to DataFrame.
\<close>

record FitnessTracker =
  activities :: "activity list"
  health_metrics :: "string \<rightharpoonup> reading list"

text \<open>One row of the frame that \<open>resample('W').agg(...)\<close> returns.\<close>

record week_row =
  WeekEnd :: date
  DurationMinSum :: number
  CaloriesBurnedSum :: number
  DistanceKMSum :: number

text \<open>The result of \<open>np.mean\<close>: a float, \<open>nan\<close> for an empty array.\<close>

datatype np_float = NaN | Finite number

text \<open>What the methods print, line by line.\<close>

datatype line =
    ActivityLogged string number
  | MetricLogged string number
  | SummaryHeader
  | SummaryTable "week_row list"
  | AverageDuration np_float

section \<open>The operations\<close>

definition init :: FitnessTracker where
  "init = \<lparr>activities = [], health_metrics = Map.empty\<rparr>"

text \<open>\<open>log_activity\<close>: the new state and the line printed.\<close>

definition log_activity ::
  "date \<Rightarrow> FitnessTracker \<Rightarrow> string \<Rightarrow> number \<Rightarrow> number \<Rightarrow> FitnessTracker \<times> line list" where
  "log_activity today self activity_type duration_min distance_km =
     (let date = DateStr today;
          calories = (if activity_type = ''Running'' then duration_min * 10
                      else if activity_type = ''Cycling'' then duration_min * 7
                      else duration_min * 5);
          new_activity = \<lparr>Date = date, ActivityType = activity_type,
                          DurationMin = duration_min, CaloriesBurned = calories,
                          DistanceKM = distance_km\<rparr>
      in (self\<lparr>activities := activities self @ [new_activity]\<rparr>,
          [ActivityLogged activity_type duration_min]))"

text \<open>
  \<open>log_health_metric\<close>. Line 36 stores an empty frame under a new name, line 39 reads
  \<open>self.health_metrics[metric_name]\<close> back and stores the frame with the new row appended.
  The read cannot raise KeyError after line 36 (lemma \<open>log_health_metric_key_present\<close>);
  the \<open>None\<close> branch is that impossible case.
\<close>

definition ensure_metric :: "(string \<rightharpoonup> reading list) \<Rightarrow> string \<Rightarrow> (string \<rightharpoonup> reading list)" where
  "ensure_metric hm metric_name =
     (if metric_name \<notin> dom hm then hm(metric_name \<mapsto> []) else hm)"

definition log_health_metric ::
  "date \<Rightarrow> FitnessTracker \<Rightarrow> string \<Rightarrow> number \<Rightarrow> FitnessTracker \<times> line list" where
  "log_health_metric today self metric_name v =
     (let date = DateStr today;
          hm = ensure_metric (health_metrics self) metric_name;
          new_metric = \<lparr>MetricDate = date, Value = v\<rparr>
      in (case hm metric_name of
            Some df \<Rightarrow> (self\<lparr>health_metrics := hm(metric_name \<mapsto> df @ [new_metric])\<rparr>,
                        [MetricLogged metric_name v])
          | None \<Rightarrow> (self\<lparr>health_metrics := hm\<rparr>, [])))"

text \<open>\<open>pd.to_datetime\<close> on a \<open>Date\<close> cell: a date text is parsed, a Timestamp is kept.\<close>

fun to_datetime :: "date_cell \<Rightarrow> date_cell" where
  "to_datetime (DateStr d) = Timestamp d"
| "to_datetime (Timestamp d) = Timestamp d"

text \<open>
  \<open>resample('W')\<close> is pandas' weekly frequency anchored on Sunday, with bins closed and
  labelled on the right: the bin labelled by the Sunday \<open>s\<close> holds the days \<open>s - 7 < d \<le> s\<close>.
  The result has one row for every bin from the bin of the earliest index value to the bin
  of the latest one, also for a bin that holds no row of the frame, and \<open>'sum'\<close> over no
  rows is 0.

  \<open>weekday\<close> is \<open>Timestamp.weekday()\<close>: Monday is 0 and Sunday is 6; day 0 is a Thursday.
\<close>

definition weekday :: "date \<Rightarrow> int" where
  "weekday d = (d + 3) mod 7"

definition week_end :: "date \<Rightarrow> date" where
  "week_end d = d + (6 - weekday d)"

definition in_bin :: "date \<Rightarrow> date \<Rightarrow> bool" where
  "in_bin label d = (label - 7 < d \<and> d \<le> label)"

definition bin_labels :: "date \<Rightarrow> date \<Rightarrow> date list" where
  "bin_labels first_day last_day =
     map (\<lambda>k. week_end first_day + 7 * int k)
         [0 ..< Suc (nat ((week_end last_day - week_end first_day) div 7))]"

definition agg_sum :: "activity list \<Rightarrow> date \<Rightarrow> week_row" where
  "agg_sum df label =
     (let rows = filter (\<lambda>r. in_bin label (day_of (Date r))) df
      in \<lparr>WeekEnd = label,
          DurationMinSum = sum_list (map DurationMin rows),
          CaloriesBurnedSum = sum_list (map CaloriesBurned rows),
          DistanceKMSum = sum_list (map DistanceKM rows)\<rparr>)"

definition resample_W_sum :: "activity list \<Rightarrow> week_row list" where
  "resample_W_sum df =
     (case map (\<lambda>r. day_of (Date r)) df of
        [] \<Rightarrow> []
      | d # ds \<Rightarrow> map (agg_sum df) (bin_labels (fold min ds d) (fold max ds d)))"

text \<open>\<open>np.mean\<close> of a one-dimensional array: the sum over the count, \<open>nan\<close> when empty.\<close>

definition np_mean :: "number list \<Rightarrow> np_float" where
  "np_mean a = (if a = [] then NaN else Finite (sum_list a / of_nat (length a)))"

text \<open>
  \<open>calculate_weekly_summary\<close>: the new state (line 44 assigns the \<open>Date\<close> column), the
  frame returned, and the lines printed. The last line prints the mean with two decimals.
\<close>

definition calculate_weekly_summary ::
  "FitnessTracker \<Rightarrow> FitnessTracker \<times> week_row list \<times> line list" where
  "calculate_weekly_summary self =
     (let self1 = self\<lparr>activities :=
                    map (\<lambda>r. r\<lparr>Date := to_datetime (Date r)\<rparr>) (activities self)\<rparr>;
          weekly_summary = resample_W_sum (activities self1);
          average_duration_all_time = np_mean (map DurationMin (activities self1))
      in (self1, weekly_summary,
          [SummaryHeader, SummaryTable weekly_summary,
           AverageDuration average_duration_all_time]))"

definition get_activity_data :: "FitnessTracker \<Rightarrow> activity list" where
  "get_activity_data self = activities self"

text \<open>\<open>self.health_metrics.get(metric_name, pd.DataFrame())\<close>: the default is an empty frame.\<close>

definition get_health_data :: "FitnessTracker \<Rightarrow> string \<Rightarrow> reading list" where
  "get_health_data self metric_name =
     (case health_metrics self metric_name of None \<Rightarrow> [] | Some df \<Rightarrow> df)"

text \<open>
  Histories of a tracker: the method calls made on it since \<open>__init__\<close>, each with the
  day on which it is made.
\<close>

datatype call =
    LogActivity string number number
  | LogHealthMetric string number
  | CalculateWeeklySummary

fun step :: "FitnessTracker \<Rightarrow> date \<times> call \<Rightarrow> FitnessTracker" where
  "step self (today, LogActivity ty dur km) = fst (log_activity today self ty dur km)"
| "step self (today, LogHealthMetric m v) = fst (log_health_metric today self m v)"
| "step self (today, CalculateWeeklySummary) = fst (calculate_weekly_summary self)"

definition run :: "(date \<times> call) list \<Rightarrow> FitnessTracker" where
  "run calls = foldl step init calls"

text \<open>
  The sample data that \<open>main_dashboard\<close> logs before the menu starts (lines 101 to 105).
\<close>

definition sample_data :: "date \<Rightarrow> (date \<times> call) list" where
  "sample_data today =
     [(today, LogActivity ''Running'' 30 4.5),
      (today, LogActivity ''Cycling'' 60 15),
      (today, LogActivity ''Running'' 45 6.0),
      (today, LogHealthMetric ''Weight_KG'' 75.2),
      (today, LogHealthMetric ''Weight_KG'' 74.8)]"

text \<open>
  A history with two activities two weeks apart: Tuesday 2026-11-03 (day 20760) and
  Tuesday 2026-11-17 (day 20774).
\<close>

definition two_weeks_apart :: "(date \<times> call) list" where
  "two_weeks_apart =
     [(20760, LogActivity ''Running'' 30 4.5), (20774, LogActivity ''Cycling'' 60 15)]"

text \<open>The rate table of the specification, section 4.1.\<close>

definition rate :: "string \<Rightarrow> number" where
  "rate activityType =
     (if activityType = ''Running'' then 10
      else if activityType = ''Cycling'' then 7 else 5)"

section \<open>Calories\<close>

text \<open>
  C1: for every activity type and duration, the calories stored by \<open>log_activity\<close> are
  the duration times the rate chosen by exact string match (10 for Running, 7 for
  Cycling, 5 for anything else); the three examples of the specification store 300, 420
  and 100.
\<close>

theorem log_activity_calories:
  "CaloriesBurned (last (activities (fst (log_activity today self ty dur km))))
     = dur * rate ty
   \<and> CaloriesBurned (last (activities (fst (log_activity today self ''Running'' 30 4.5)))) = 300
   \<and> CaloriesBurned (last (activities (fst (log_activity today self ''Cycling'' 60 15)))) = 420
   \<and> CaloriesBurned (last (activities (fst (log_activity today self ''Yoga'' 20 0)))) = 100"
  by (simp add: log_activity_def rate_def)

section \<open>Logging activities\<close>

text \<open>
  C5: \<open>log_activity\<close> appends exactly one row: \<open>get_activity_data\<close> then returns the
  previous rows, unchanged and in their order, followed by one row that holds the
  arguments, the derived calories and today's date.
\<close>

theorem log_activity_appends:
  "get_activity_data (fst (log_activity today self ty dur km)) =
     get_activity_data self @
       [\<lparr>Date = DateStr today, ActivityType = ty, DurationMin = dur,
         CaloriesBurned = dur * rate ty, DistanceKM = km\<rparr>]"
  by (simp add: log_activity_def get_activity_data_def rate_def)

text \<open>
  C9: the two logging operations do not touch each other's data: \<open>log_health_metric\<close>
  leaves the activities as they are, and \<open>log_activity\<close> leaves the whole dict of health
  metrics as it is.
\<close>

theorem logging_independent:
  "activities (fst (log_health_metric today self m v)) = activities self
   \<and> health_metrics (fst (log_activity today self ty dur km)) = health_metrics self"
  by (simp add: log_health_metric_def log_activity_def Let_def split: option.split)

section \<open>Logging health metrics\<close>

lemma log_health_metric_key_present: "ensure_metric hm m m \<noteq> None"
  by (simp add: ensure_metric_def dom_def)

text \<open>
  C10: \<open>log_health_metric\<close> followed by \<open>get_health_data\<close> for the same name returns a
  non-empty frame whose last row holds the value logged and today's date.
\<close>

theorem log_then_get_health_data:
  "get_health_data (fst (log_health_metric today self m v)) m \<noteq> []
   \<and> last (get_health_data (fst (log_health_metric today self m v)) m)
       = \<lparr>MetricDate = DateStr today, Value = v\<rparr>"
  by (simp add: log_health_metric_def get_health_data_def ensure_metric_def Let_def dom_def
           split: option.split)

section \<open>The weekly summary\<close>

text \<open>
  C3 (the code at the empty collection): on a tracker without activities
  \<open>calculate_weekly_summary\<close> returns an empty frame and raises nothing, but it does not
  skip the mean: it takes \<open>np.mean\<close> of the empty column, which is \<open>nan\<close>, and prints the
  average line with it.
\<close>

theorem calculate_weekly_summary_empty:
  "calculate_weekly_summary \<lparr>activities = [], health_metrics = hm\<rparr>
     = (\<lparr>activities = [], health_metrics = hm\<rparr>, [],
        [SummaryHeader, SummaryTable [], AverageDuration NaN])"
  by (simp add: calculate_weekly_summary_def resample_W_sum_def np_mean_def)

text \<open>
  C4 as stated fails: after \<open>calculate_weekly_summary\<close> the stored \<open>Date\<close> of an activity
  logged before is a Timestamp and no longer the text that \<open>log_activity\<close> stored.
\<close>

theorem weekly_summary_rewrites_dates:
  "activities (fst (calculate_weekly_summary (run [(20760, LogActivity ''Running'' 30 4.5)])))
     \<noteq> activities (run [(20760, LogActivity ''Running'' 30 4.5)])"
  by (simp add: run_def init_def log_activity_def calculate_weekly_summary_def Let_def)

text \<open>
  C4, amended: \<open>calculate_weekly_summary\<close> keeps the number and the order of the stored
  activities, the columns \<open>ActivityType\<close>, \<open>DurationMin\<close>, \<open>CaloriesBurned\<close> and
  \<open>DistanceKM\<close>, and the health metrics; in the \<open>Date\<close> column it replaces every cell by the
  Timestamp of the same calendar day.
\<close>

theorem calculate_weekly_summary_columns:
  "map ActivityType (activities (fst (calculate_weekly_summary self)))
       = map ActivityType (activities self)
   \<and> map DurationMin (activities (fst (calculate_weekly_summary self)))
       = map DurationMin (activities self)
   \<and> map CaloriesBurned (activities (fst (calculate_weekly_summary self)))
       = map CaloriesBurned (activities self)
   \<and> map DistanceKM (activities (fst (calculate_weekly_summary self)))
       = map DistanceKM (activities self)
   \<and> map Date (activities (fst (calculate_weekly_summary self)))
       = map (\<lambda>r. Timestamp (day_of (Date r))) (activities self)
   \<and> health_metrics (fst (calculate_weekly_summary self)) = health_metrics self"
proof -
  have td: "to_datetime c = Timestamp (day_of c)" for c by (cases c) simp_all
  show ?thesis by (simp add: calculate_weekly_summary_def Let_def comp_def td)
qed

subsection \<open>Weeks\<close>

lemma weekday_examples: "weekday 0 = 3 \<and> weekday 20760 = 1 \<and> week_end 20760 = 20765"
  by (simp add: weekday_def week_end_def)

lemma week_end_div: "week_end d = 7 * ((d + 3) div 7) + 3"
proof -
  have "(d + 3) - (d + 3) mod 7 = 7 * ((d + 3) div 7)"
    by (rule minus_mod_eq_mult_div)
  then show ?thesis unfolding week_end_def weekday_def by linarith
qed

lemma weekday_Sunday_form: "weekday (7 * q + 3) = 6"
  by (simp add: weekday_def)

lemma weekday_week_end: "weekday (week_end d) = 6"
  by (simp add: week_end_div weekday_def)

lemma week_end_bounds: "d \<le> week_end d \<and> week_end d < d + 7"
proof -
  have "0 \<le> weekday d \<and> weekday d < 7" by (simp add: weekday_def)
  then show ?thesis by (simp add: week_end_def)
qed

lemma week_end_mono: "a \<le> b \<Longrightarrow> week_end a \<le> week_end b"
  using zdiv_mono1[of "a + 3" "b + 3" 7] by (simp add: week_end_div)

lemma week_end_Sunday: "weekday s = 6 \<Longrightarrow> week_end s = s"
  by (simp add: week_end_def)

lemma week_end_iff: "week_end d = s \<longleftrightarrow> weekday s = 6 \<and> in_bin s d"
proof
  assume "week_end d = s"
  then show "weekday s = 6 \<and> in_bin s d"
    using weekday_week_end[of d] week_end_bounds[of d] by (auto simp: in_bin_def)
next
  assume a: "weekday s = 6 \<and> in_bin s d"
  then have s: "s = 7 * ((s + 3) div 7) + 3"
    using week_end_div[of s] week_end_Sunday[of s] by simp
  have d: "week_end d = 7 * ((d + 3) div 7) + 3" by (rule week_end_div)
  have "week_end d \<le> s" using a week_end_mono[of d s] week_end_Sunday[of s]
    by (simp add: in_bin_def)
  moreover have "s - 7 < week_end d" using a week_end_bounds[of d] by (simp add: in_bin_def)
  ultimately have "(d + 3) div 7 = (s + 3) div 7" using s d by linarith
  then show "week_end d = s" using s d by simp
qed

lemma week_end_step: "a \<le> b \<Longrightarrow> \<exists>k. week_end b = week_end a + 7 * int k"
proof -
  assume "a \<le> b"
  then have "(a + 3) div 7 \<le> (b + 3) div 7" by (simp add: zdiv_mono1)
  then have "week_end b = week_end a + 7 * int (nat ((b + 3) div 7 - (a + 3) div 7))"
    by (simp add: week_end_div)
  then show ?thesis ..
qed

lemma set_bin_labels:
  assumes lh: "lo \<le> hi"
  shows "set (bin_labels lo hi) = {s. weekday s = 6 \<and> week_end lo \<le> s \<and> s \<le> week_end hi}"
proof (intro set_eqI iffI)
  fix s assume "s \<in> set (bin_labels lo hi)"
  then have "s \<in> (\<lambda>k. week_end lo + 7 * int k) `
             set [0 ..< Suc (nat ((week_end hi - week_end lo) div 7))]"
    unfolding bin_labels_def by (simp only: set_map)
  then obtain k where k: "k \<le> nat ((week_end hi - week_end lo) div 7)"
      and s: "s = week_end lo + 7 * int k"
    by (auto simp del: int_nat_eq)
  from week_end_step[OF lh] obtain n where n: "week_end hi = week_end lo + 7 * int n" ..
  then have "nat ((week_end hi - week_end lo) div 7) = n" by simp
  with k have "k \<le> n" by simp
  moreover have "weekday s = 6"
  proof -
    have "s = 7 * ((lo + 3) div 7 + int k) + 3" by (simp add: s week_end_div)
    then show ?thesis by (simp only: weekday_Sunday_form)
  qed
  ultimately show "s \<in> {s. weekday s = 6 \<and> week_end lo \<le> s \<and> s \<le> week_end hi}"
    using s n by simp
next
  fix s assume "s \<in> {s. weekday s = 6 \<and> week_end lo \<le> s \<and> s \<le> week_end hi}"
  then have sun: "weekday s = 6" and ge: "week_end lo \<le> s" and le: "s \<le> week_end hi" by auto
  have "lo \<le> s" using ge week_end_bounds[of lo] by simp
  from week_end_step[OF this] week_end_Sunday[OF sun]
  obtain k where k: "s = week_end lo + 7 * int k" by auto
  from week_end_step[OF lh] obtain n where n: "week_end hi = week_end lo + 7 * int n" ..
  then have nn: "nat ((week_end hi - week_end lo) div 7) = n" by simp
  have "k \<le> n" using le k n by simp
  then have "k \<in> set [0 ..< Suc (nat ((week_end hi - week_end lo) div 7))]"
    unfolding nn by auto
  then show "s \<in> set (bin_labels lo hi)" unfolding bin_labels_def using k by force
qed

lemma sorted_bin_labels: "sorted_wrt (<) (bin_labels lo hi)"
  unfolding bin_labels_def sorted_wrt_map
  by (rule sorted_wrt_mono_rel[OF _ sorted_wrt_upt]) simp

lemma fold_min_Min: "fold min ds (d::int) = Min (set (d # ds))"
  using Min.set_eq_fold[of d ds] by simp

lemma fold_max_Max: "fold max ds (d::int) = Max (set (d # ds))"
  using Max.set_eq_fold[of d ds] by simp

lemma resample_labels:
  assumes "df \<noteq> []"
  shows "map WeekEnd (resample_W_sum df) =
           bin_labels (Min (set (map (\<lambda>r. day_of (Date r)) df)))
                      (Max (set (map (\<lambda>r. day_of (Date r)) df)))"
proof -
  from assms obtain d ds where e: "map (\<lambda>r. day_of (Date r)) df = d # ds"
    by (cases df) auto
  have "map WeekEnd (resample_W_sum df) = bin_labels (fold min ds d) (fold max ds d)"
    by (simp add: resample_W_sum_def e comp_def agg_sum_def Let_def)
  then show ?thesis by (simp only: fold_min_Min fold_max_Max e)
qed

lemma resample_rows:
  "b \<in> set (resample_W_sum df) \<Longrightarrow> b = agg_sum df (WeekEnd b)"
  by (auto simp: resample_W_sum_def agg_sum_def Let_def split: list.splits)

lemma agg_sum_week:
  assumes "weekday s = 6"
  shows "agg_sum df s =
     \<lparr>WeekEnd = s,
      DurationMinSum = sum_list (map DurationMin [r \<leftarrow> df. week_end (day_of (Date r)) = s]),
      CaloriesBurnedSum = sum_list (map CaloriesBurned [r \<leftarrow> df. week_end (day_of (Date r)) = s]),
      DistanceKMSum = sum_list (map DistanceKM [r \<leftarrow> df. week_end (day_of (Date r)) = s])\<rparr>"
  using assms by (simp add: agg_sum_def Let_def week_end_iff)


lemma day_of_to_datetime: "day_of (to_datetime c) = day_of c"
  by (cases c) simp_all

lemma agg_sum_to_datetime:
  "agg_sum (map (\<lambda>r. r\<lparr>Date := to_datetime (Date r)\<rparr>) acts) = agg_sum acts"
  by (rule ext) (simp add: agg_sum_def Let_def filter_map comp_def day_of_to_datetime)

lemma resample_to_datetime:
  "resample_W_sum (map (\<lambda>r. r\<lparr>Date := to_datetime (Date r)\<rparr>) acts) = resample_W_sum acts"
  by (simp add: resample_W_sum_def agg_sum_to_datetime comp_def day_of_to_datetime
        split: list.split)

lemma returned_summary:
  "fst (snd (calculate_weekly_summary self)) = resample_W_sum (activities self)"
  by (simp add: calculate_weekly_summary_def Let_def resample_to_datetime)

subsection \<open>The buckets\<close>

text \<open>
  C2 as stated fails: for two activities two weeks apart the summary has three rows, one
  of them for the week in between, in which no activity falls; the activities lie in two
  distinct weeks only.
\<close>

theorem weekly_summary_gap_week:
  "fst (snd (calculate_weekly_summary (run two_weeks_apart)))
     = [\<lparr>WeekEnd = 20765, DurationMinSum = 30, CaloriesBurnedSum = 300, DistanceKMSum = 4.5\<rparr>,
        \<lparr>WeekEnd = 20772, DurationMinSum = 0, CaloriesBurnedSum = 0, DistanceKMSum = 0\<rparr>,
        \<lparr>WeekEnd = 20779, DurationMinSum = 60, CaloriesBurnedSum = 420, DistanceKMSum = 15\<rparr>]
   \<and> (\<lambda>r. week_end (day_of (Date r))) ` set (activities (run two_weeks_apart))
     = {20765, 20779}"
  by (simp add: two_weeks_apart_def run_def init_def log_activity_def
        calculate_weekly_summary_def resample_W_sum_def bin_labels_def agg_sum_def in_bin_def
        week_end_def weekday_def Let_def upt_rec)

text \<open>
  C2, amended: for a non-empty activity collection the rows of the summary are labelled
  by Sundays, in strictly increasing order, and the labels are exactly the Sundays from
  the week of the earliest activity to the week of the latest one (so also the weeks in
  between in which no activity falls); the week of every activity has a row; and in every
  row each of the three totals is the plain sum of that column over exactly the activities
  whose day falls in the week ending on the row's label.
\<close>

theorem weekly_summary_buckets:
  assumes "activities self \<noteq> []"
  shows "sorted_wrt (<) (map WeekEnd (fst (snd (calculate_weekly_summary self))))
    \<and> set (map WeekEnd (fst (snd (calculate_weekly_summary self)))) =
        {s. weekday s = 6
            \<and> week_end (Min (set (map (\<lambda>r. day_of (Date r)) (activities self)))) \<le> s
            \<and> s \<le> week_end (Max (set (map (\<lambda>r. day_of (Date r)) (activities self))))}
    \<and> (\<forall>r \<in> set (activities self).
          week_end (day_of (Date r)) \<in> set (map WeekEnd (fst (snd (calculate_weekly_summary self)))))
    \<and> (\<forall>b \<in> set (fst (snd (calculate_weekly_summary self))).
          DurationMinSum b = sum_list (map DurationMin
             [r \<leftarrow> activities self. week_end (day_of (Date r)) = WeekEnd b])
        \<and> CaloriesBurnedSum b = sum_list (map CaloriesBurned
             [r \<leftarrow> activities self. week_end (day_of (Date r)) = WeekEnd b])
        \<and> DistanceKMSum b = sum_list (map DistanceKM
             [r \<leftarrow> activities self. week_end (day_of (Date r)) = WeekEnd b]))"
proof -
  let ?acts = "activities self"
  let ?rows = "fst (snd (calculate_weekly_summary self))"
  let ?days = "set (map (\<lambda>r. day_of (Date r)) ?acts)"
  have rows: "?rows = resample_W_sum ?acts" by (rule returned_summary)
  have fin: "finite ?days" and ne: "?days \<noteq> {}" using assms by simp_all
  have lh: "Min ?days \<le> Max ?days"
  proof -
    from ne obtain x where x: "x \<in> ?days" by (auto simp only: ex_in_conv[symmetric])
    have "Min ?days \<le> x" using fin x by (rule Min_le)
    also have "x \<le> Max ?days" using fin x by (rule Max_ge)
    finally show ?thesis .
  qed
  have labels: "map WeekEnd ?rows = bin_labels (Min ?days) (Max ?days)"
    unfolding rows using assms by (rule resample_labels)
  have sorted: "sorted_wrt (<) (map WeekEnd ?rows)"
    unfolding labels by (rule sorted_bin_labels)
  have range: "set (map WeekEnd ?rows) =
      {s. weekday s = 6 \<and> week_end (Min ?days) \<le> s \<and> s \<le> week_end (Max ?days)}"
    unfolding labels using lh by (rule set_bin_labels)
  have covered: "week_end (day_of (Date r)) \<in> set (map WeekEnd ?rows)"
    if r: "r \<in> set ?acts" for r
  proof -
    have d: "day_of (Date r) \<in> ?days" using r by simp
    have "Min ?days \<le> day_of (Date r)" using fin d by (rule Min_le)
    moreover have "day_of (Date r) \<le> Max ?days" using fin d by (rule Max_ge)
    ultimately show ?thesis
      unfolding range using week_end_mono weekday_week_end by simp
  qed
  have sums: "DurationMinSum b = sum_list (map DurationMin
             [r \<leftarrow> ?acts. week_end (day_of (Date r)) = WeekEnd b])
        \<and> CaloriesBurnedSum b = sum_list (map CaloriesBurned
             [r \<leftarrow> ?acts. week_end (day_of (Date r)) = WeekEnd b])
        \<and> DistanceKMSum b = sum_list (map DistanceKM
             [r \<leftarrow> ?acts. week_end (day_of (Date r)) = WeekEnd b])"
    if b: "b \<in> set ?rows" for b
  proof -
    have "WeekEnd b \<in> set (map WeekEnd ?rows)" using b by simp
    then have sun: "weekday (WeekEnd b) = 6" unfolding range by simp
    have "b = agg_sum ?acts (WeekEnd b)" using b unfolding rows by (rule resample_rows)
    then have "b = \<lparr>WeekEnd = WeekEnd b,
      DurationMinSum = sum_list (map DurationMin [r \<leftarrow> ?acts. week_end (day_of (Date r)) = WeekEnd b]),
      CaloriesBurnedSum = sum_list (map CaloriesBurned [r \<leftarrow> ?acts. week_end (day_of (Date r)) = WeekEnd b]),
      DistanceKMSum = sum_list (map DistanceKM [r \<leftarrow> ?acts. week_end (day_of (Date r)) = WeekEnd b])\<rparr>"
      using agg_sum_week[OF sun] by simp
    then show ?thesis by (metis week_row.select_convs)
  qed
  show ?thesis using sorted range covered sums by blast
qed

section \<open>The mean duration\<close>

text \<open>
  C8: for a non-empty activity collection \<open>calculate_weekly_summary\<close> prints, after the
  summary it returns, the arithmetic mean of \<open>DurationMin\<close> over all stored activities;
  the mean is in the printed lines only, the returned frame is the weekly table.
\<close>

theorem average_duration_reported:
  "activities self \<noteq> [] \<Longrightarrow>
     snd (snd (calculate_weekly_summary self)) =
       [SummaryHeader, SummaryTable (fst (snd (calculate_weekly_summary self))),
        AverageDuration (Finite (sum_list (map DurationMin (activities self))
                                 / of_nat (length (activities self))))]"
  by (simp add: calculate_weekly_summary_def Let_def np_mean_def comp_def)

section \<open>Health metric sequences\<close>

text \<open>
  C6: \<open>log_health_metric\<close> with a name that has no frame yet creates exactly one new
  entry of the dict, a frame with the one reading (today, value); with a name that has a
  frame it appends the reading at the end of that frame, keeping the rows that were there,
  and adds no entry; the frames of all other names are as before.
\<close>

theorem log_health_metric_sequences:
  "(health_metrics self m = None \<longrightarrow>
      health_metrics (fst (log_health_metric today self m v)) m
        = Some [\<lparr>MetricDate = DateStr today, Value = v\<rparr>]
      \<and> dom (health_metrics (fst (log_health_metric today self m v)))
        = insert m (dom (health_metrics self)))
   \<and> (\<forall>df. health_metrics self m = Some df \<longrightarrow>
      health_metrics (fst (log_health_metric today self m v)) m
        = Some (df @ [\<lparr>MetricDate = DateStr today, Value = v\<rparr>])
      \<and> dom (health_metrics (fst (log_health_metric today self m v)))
        = dom (health_metrics self))
   \<and> (\<forall>m'. m' \<noteq> m \<longrightarrow>
      health_metrics (fst (log_health_metric today self m v)) m' = health_metrics self m')"
proof (cases "health_metrics self m")
  case None
  then have "m \<notin> dom (health_metrics self)" by (simp add: domIff)
  with None show ?thesis
    by (simp add: log_health_metric_def ensure_metric_def Let_def)
next
  case (Some df)
  then have "m \<in> dom (health_metrics self)" by (simp add: domIff)
  with Some show ?thesis
    by (simp add: log_health_metric_def ensure_metric_def Let_def insert_absorb)
qed

text \<open>
  An instance of C6: two readings of \<open>Weight_KG\<close> on a new tracker, and a reading of
  another metric that leaves \<open>Weight_KG\<close> alone.
\<close>

theorem log_health_metric_sequences_witness:
  "health_metrics init ''Weight_KG'' = None
   \<and> health_metrics (fst (log_health_metric 20760 init ''Weight_KG'' 75.2)) ''Weight_KG''
       = Some [\<lparr>MetricDate = DateStr 20760, Value = 75.2\<rparr>]
   \<and> health_metrics (fst (log_health_metric 20761
         (fst (log_health_metric 20760 init ''Weight_KG'' 75.2)) ''Weight_KG'' 74.8)) ''Weight_KG''
       = Some [\<lparr>MetricDate = DateStr 20760, Value = 75.2\<rparr>,
               \<lparr>MetricDate = DateStr 20761, Value = 74.8\<rparr>]
   \<and> health_metrics (fst (log_health_metric 20761
         (fst (log_health_metric 20760 init ''Weight_KG'' 75.2)) ''restingHR_BPM'' 61)) ''Weight_KG''
       = Some [\<lparr>MetricDate = DateStr 20760, Value = 75.2\<rparr>]"
proof -
  let ?t1 = "fst (log_health_metric 20760 init ''Weight_KG'' 75.2)"
  have a: "health_metrics init ''Weight_KG'' = None" by (simp add: init_def)
  have b: "health_metrics ?t1 ''Weight_KG'' = Some [\<lparr>MetricDate = DateStr 20760, Value = 75.2\<rparr>]"
    using log_health_metric_sequences[of init "''Weight_KG''" 20760 "75.2"] a
    by (elim conjE) simp
  have c: "health_metrics (fst (log_health_metric 20761 ?t1 ''Weight_KG'' 74.8)) ''Weight_KG''
       = Some ([\<lparr>MetricDate = DateStr 20760, Value = 75.2\<rparr>] @
               [\<lparr>MetricDate = DateStr 20761, Value = 74.8\<rparr>])"
    using log_health_metric_sequences[of ?t1 "''Weight_KG''" 20761 "74.8"] b
    by (elim conjE) simp
  have ne: "''Weight_KG'' \<noteq> ''restingHR_BPM''" by simp
  have d: "health_metrics (fst (log_health_metric 20761 ?t1 ''restingHR_BPM'' 61)) ''Weight_KG''
       = health_metrics ?t1 ''Weight_KG''"
    using log_health_metric_sequences[of ?t1 "''restingHR_BPM''" 20761 61] ne
    by (elim conjE) simp
  show ?thesis using a b c d by simp
qed

section \<open>Metrics that were never logged\<close>

lemma step_keeps_absent:
  assumes "health_metrics self m = None" and "\<forall>v. c \<noteq> LogHealthMetric m v"
  shows "health_metrics (step self (today, c)) m = None"
proof (cases c)
  case (LogActivity ty dur km)
  then show ?thesis using assms by (simp add: log_activity_def)
next
  case (LogHealthMetric m' v)
  with assms have "m' \<noteq> m" by auto
  with LogHealthMetric assms show ?thesis
    by (simp add: log_health_metric_def ensure_metric_def Let_def split: option.split)
next
  case CalculateWeeklySummary
  then show ?thesis using assms by (simp add: calculate_weekly_summary_def Let_def)
qed

lemma foldl_step_keeps_absent:
  assumes "\<forall>today v. (today, LogHealthMetric m v) \<notin> set calls"
  shows "health_metrics self m = None \<Longrightarrow> health_metrics (foldl step self calls) m = None"
  using assms
proof (induction calls arbitrary: self)
  case Nil
  then show ?case by simp
next
  case (Cons c calls)
  obtain today k where c: "c = (today, k)" by (cases c)
  from Cons.prems(2) c have "\<forall>v. k \<noteq> LogHealthMetric m v" by auto
  with Cons.prems(1) have "health_metrics (step self c) m = None"
    unfolding c by (rule step_keeps_absent)
  moreover from Cons.prems(2) have "\<forall>today v. (today, LogHealthMetric m v) \<notin> set calls"
    by simp
  ultimately show ?case using Cons.IH by simp
qed

text \<open>
  C7: on a tracker whose history has no \<open>log_health_metric\<close> call for a name,
  \<open>get_health_data\<close> returns the empty frame for that name (the \<open>dict.get\<close> default), and
  raises nothing.
\<close>

theorem get_health_data_never_logged:
  assumes "\<forall>today v. (today, LogHealthMetric m v) \<notin> set calls"
  shows "get_health_data (run calls) m = []"
proof -
  have "health_metrics init m = None" by (simp add: init_def)
  with assms have "health_metrics (run calls) m = None"
    unfolding run_def by (rule foldl_step_keeps_absent)
  then show ?thesis by (simp add: get_health_data_def)
qed

lemma health_metrics_sample_data:
  "health_metrics (run (sample_data today)) =
     [''Weight_KG'' \<mapsto> [\<lparr>MetricDate = DateStr today, Value = 75.2\<rparr>,
                        \<lparr>MetricDate = DateStr today, Value = 74.8\<rparr>]]"
  by (simp add: sample_data_def run_def init_def log_activity_def log_health_metric_def
        ensure_metric_def Let_def)

text \<open>
  An instance of C7: after the sample data of \<open>main_dashboard\<close>, \<open>restingHR_BPM\<close> has the
  empty frame and \<open>Weight_KG\<close> has not.
\<close>

theorem get_health_data_never_logged_witness:
  "get_health_data (run (sample_data 20760)) ''restingHR_BPM'' = []
   \<and> get_health_data (run (sample_data 20760)) ''Weight_KG'' \<noteq> []"
proof -
  have h: "\<forall>today v. (today, LogHealthMetric ''restingHR_BPM'' v) \<notin> set (sample_data 20760)"
    by (simp add: sample_data_def)
  have "get_health_data (run (sample_data 20760)) ''Weight_KG'' \<noteq> []"
    by (simp add: health_metrics_sample_data get_health_data_def)
  with get_health_data_never_logged[OF h] show ?thesis by simp
qed

section \<open>Concrete runs\<close>

lemma activities_sample_data:
  "activities (run (sample_data today)) =
     [\<lparr>Date = DateStr today, ActivityType = ''Running'', DurationMin = 30,
       CaloriesBurned = 300, DistanceKM = 4.5\<rparr>,
      \<lparr>Date = DateStr today, ActivityType = ''Cycling'', DurationMin = 60,
       CaloriesBurned = 420, DistanceKM = 15\<rparr>,
      \<lparr>Date = DateStr today, ActivityType = ''Running'', DurationMin = 45,
       CaloriesBurned = 450, DistanceKM = 6\<rparr>]"
  by (simp add: sample_data_def run_def init_def log_activity_def log_health_metric_def
        ensure_metric_def Let_def)

text \<open>
  An instance of C8: on the sample data (durations 30, 60 and 45) the mean printed is 45.
\<close>

theorem average_duration_reported_witness:
  "activities (run (sample_data 20760)) \<noteq> []
   \<and> last (snd (snd (calculate_weekly_summary (run (sample_data 20760)))))
       = AverageDuration (Finite 45)"
proof -
  have h: "activities (run (sample_data 20760)) \<noteq> []"
    by (simp add: activities_sample_data)
  from average_duration_reported[OF h] show ?thesis
    by (simp add: activities_sample_data)
qed

lemma activities_two_weeks_apart:
  "activities (run two_weeks_apart) =
     [\<lparr>Date = DateStr 20760, ActivityType = ''Running'', DurationMin = 30,
       CaloriesBurned = 300, DistanceKM = 4.5\<rparr>,
      \<lparr>Date = DateStr 20774, ActivityType = ''Cycling'', DurationMin = 60,
       CaloriesBurned = 420, DistanceKM = 15\<rparr>]"
  by (simp add: two_weeks_apart_def run_def init_def log_activity_def)

lemma days_two_weeks_apart:
  "week_end (Min (set (map (\<lambda>r. day_of (Date r)) (activities (run two_weeks_apart))))) = 20765
   \<and> week_end (Max (set (map (\<lambda>r. day_of (Date r)) (activities (run two_weeks_apart))))) = 20779"
  by (simp add: activities_two_weeks_apart week_end_def weekday_def)

text \<open>
  An instance of the amended C2: for the two activities two weeks apart the labels are
  the Sundays from day 20765 to day 20779, in increasing order, and each row's duration
  total is the sum over the activities of its week.
\<close>

theorem weekly_summary_buckets_witness:
  "activities (run two_weeks_apart) \<noteq> []
   \<and> sorted_wrt (<) (map WeekEnd (fst (snd (calculate_weekly_summary (run two_weeks_apart)))))
   \<and> set (map WeekEnd (fst (snd (calculate_weekly_summary (run two_weeks_apart)))))
       = {s. weekday s = 6 \<and> 20765 \<le> s \<and> s \<le> 20779}
   \<and> list_all (\<lambda>b. DurationMinSum b = sum_list (map DurationMin
          [r \<leftarrow> activities (run two_weeks_apart). week_end (day_of (Date r)) = WeekEnd b]))
        (fst (snd (calculate_weekly_summary (run two_weeks_apart))))"
proof -
  have h: "activities (run two_weeks_apart) \<noteq> []"
    by (simp add: activities_two_weeks_apart)
  note w = weekly_summary_buckets[OF h]
  have s1: "sorted_wrt (<) (map WeekEnd (fst (snd (calculate_weekly_summary (run two_weeks_apart)))))"
    by (rule conjunct1[OF w])
  have s2: "set (map WeekEnd (fst (snd (calculate_weekly_summary (run two_weeks_apart)))))
       = {s. weekday s = 6 \<and> 20765 \<le> s \<and> s \<le> 20779}"
    using conjunct1[OF conjunct2[OF w]] by (simp only: days_two_weeks_apart)
  have s4: "list_all (\<lambda>b. DurationMinSum b = sum_list (map DurationMin
          [r \<leftarrow> activities (run two_weeks_apart). week_end (day_of (Date r)) = WeekEnd b]))
        (fst (snd (calculate_weekly_summary (run two_weeks_apart))))"
    unfolding list_all_iff
  proof
    fix b assume b: "b \<in> set (fst (snd (calculate_weekly_summary (run two_weeks_apart))))"
    note sums = bspec[OF conjunct2[OF conjunct2[OF conjunct2[OF w]]] b]
    show "DurationMinSum b = sum_list (map DurationMin
          [r \<leftarrow> activities (run two_weeks_apart). week_end (day_of (Date r)) = WeekEnd b])"
      by (rule conjunct1[OF sums])
  qed
  from h s1 s2 s4 show ?thesis by (intro conjI)
qed

end
